theory Spec2Isabelle
  imports Main "HOL-Library.Word" "HOL-Library.Signed_Division"
begin

unbundle bit_operations_syntax

section \<open>The data of wait\_timeout\_thread\_untraced.c\<close>

text \<open>
  \<^verbatim>\<open>pid_t\<close> values are stored, compared with \<open>-1\<close> and returned, never computed
  with, so they are integers here. \<^verbatim>\<open>time_t\<close> and \<^verbatim>\<open>long\<close> are the 64-bit signed
  integers of an LP64 platform, \<^verbatim>\<open>uint32_t\<close> is a 32-bit word.
\<close>

type_synonym pid_t = int

record timespec =
  tv_sec :: "64 word"
  tv_nsec :: "64 word"

text \<open>
  \<^verbatim>\<open>proc_info_t\<close>. Each call owns exactly one mutex and one condition variable, so
  the two handle fields are left out: a lock or signal event always means that pair.
\<close>

record proc_info_t =
  pid :: pid_t
  return_val :: pid_t

text \<open>Constants of the system headers (Linux values).\<close>

definition ETIMEDOUT :: int where
  "ETIMEDOUT = 110"

definition CLOCK_MONOTONIC :: int where
  "CLOCK_MONOTONIC = 1"

definition P_PID :: int where
  "P_PID = 1"

definition WNOHANG :: "32 word" where
  "WNOHANG = 0x00000001"

definition WEXITED :: "32 word" where
  "WEXITED = 0x00000004"

definition WNOWAIT :: "32 word" where
  "WNOWAIT = 0x01000000"

section \<open>Library calls, events and the environment\<close>

text \<open>
  Every library or system call the source makes, with the arguments that matter.
\<close>

datatype call =
    Pthread_mutex_init
  | Pthread_condattr_init
  | Pthread_condattr_setclock int
  | Pthread_cond_init
  | Pthread_create
  | Pthread_mutex_lock
  | Clock_gettime int
  | Pthread_cond_timedwait timespec
  | Pthread_mutex_unlock
  | Pthread_cancel
  | Pthread_join
  | Pthread_cond_destroy
  | Pthread_condattr_destroy
  | Pthread_mutex_destroy
  | Waitid int pid_t "32 word"
  | Pthread_cond_signal

text \<open>
  What one thread does, in program order: \<open>Ret c r\<close> is a call whose result \<open>r\<close> the
  code inspects, \<open>Void c\<close> a call whose result is cast to \<^verbatim>\<open>void\<close>, \<open>Blocked c\<close> a
  call the thread entered and never came back from (it blocks for ever, or the thread is
  cancelled inside it). The other three are the source's own stores and loads.
\<close>

datatype event =
    Ret call int
  | Void call
  | Blocked call
  | Store_return_val pid_t
  | Load_return_val
  | Store_errno int

text \<open>
  The environment of one call of \<^verbatim>\<open>wait_timeout_untraced\<close>: what each inspected call
  returns, the clock reading, what \<^verbatim>\<open>waitid\<close> returns in the waiter thread (\<open>None\<close>
  when the target never terminates, so that \<^verbatim>\<open>waitid\<close> blocks until the thread is
  cancelled), whether a cancellation request reaches the waiter while it is still inside
  \<^verbatim>\<open>waitid\<close>, and what each library call does to the caller's \<^verbatim>\<open>errno\<close>.
\<close>

record env =
  mutex_init_ret :: int
  condattr_init_ret :: int
  condattr_setclock_ret :: int
  cond_init_ret :: int
  pthread_create_ret :: int
  clock_gettime_ret :: int
  clock_now :: timespec
  cond_timedwait_ret :: int
  waitid_ret :: "int option"
  cancel_wins :: bool
  lib_errno :: "event \<Rightarrow> int \<Rightarrow> int"

text \<open>
  The calling thread's state: its \<^verbatim>\<open>errno\<close>, its own events so far, and the events
  of the waiter thread it has joined (the waiter has its own, thread-local \<^verbatim>\<open>errno\<close>).
\<close>

record state =
  errno :: int
  trace :: "event list"
  waiter :: "event list"

definition lib :: "env \<Rightarrow> event \<Rightarrow> state \<Rightarrow> state" where
  "lib e ev s = s\<lparr>errno := lib_errno e ev (errno s), trace := trace s @ [ev]\<rparr>"

section \<open>The waiter thread\<close>

definition waitid_call :: "proc_info_t \<Rightarrow> call" where
  "waitid_call proc_info = Waitid P_PID (pid proc_info) (WNOWAIT OR WEXITED)"

text \<open>
  \<^verbatim>\<open>wait_for_process\<close>, given what \<^verbatim>\<open>waitid\<close> does: \<open>Some r\<close> when it returns \<open>r\<close>,
  \<open>None\<close> when the thread never leaves it. The mutex calls and the signal are not
  cancellation points, so a waiter that has left \<^verbatim>\<open>waitid\<close> runs to its end.
\<close>

definition wait_for_process :: "int option \<Rightarrow> proc_info_t \<Rightarrow> proc_info_t \<times> event list" where
  "wait_for_process w proc_info =
     (case w of
        None \<Rightarrow> (proc_info, [Blocked (waitid_call proc_info)])
      | Some r \<Rightarrow>
          (let v = (if r = -1 then -1 else 0)
           in (proc_info\<lparr>return_val := v\<rparr>,
               [Ret (waitid_call proc_info) r, Store_return_val v,
                Void Pthread_mutex_lock, Void Pthread_cond_signal,
                Void Pthread_mutex_unlock])))"

text \<open>
  \<^verbatim>\<open>pthread_join\<close> on the waiter: the waiter's final \<^verbatim>\<open>proc_info\<close> and events, or
  \<open>None\<close> when the join never returns (no cancellation was requested and \<^verbatim>\<open>waitid\<close>
  never returns).
\<close>

definition pthread_join :: "env \<Rightarrow> bool \<Rightarrow> proc_info_t \<Rightarrow> (proc_info_t \<times> event list) option" where
  "pthread_join e cancelled proc_info =
     (if cancelled
      then Some (wait_for_process (if cancel_wins e then None else waitid_ret e) proc_info)
      else (case waitid_ret e of
              None \<Rightarrow> None
            | Some r \<Rightarrow> Some (wait_for_process (Some r) proc_info)))"

section \<open>The deadline\<close>

text \<open>C's \<^verbatim>\<open>/\<close> and \<^verbatim>\<open>%\<close> on \<^verbatim>\<open>long\<close>: truncation towards zero, in 64 bits.\<close>

definition long_div :: "64 word \<Rightarrow> 64 word \<Rightarrow> 64 word" where
  "long_div a b = word_of_int (sint a sdiv sint b)"

definition long_mod :: "64 word \<Rightarrow> 64 word \<Rightarrow> 64 word" where
  "long_mod a b = word_of_int (sint a smod sint b)"

text \<open>\<^verbatim>\<open>get_max_time_t\<close>: \<^verbatim>\<open>time_t\<close> is \<^verbatim>\<open>signed long\<close>, so \<^verbatim>\<open>_Generic\<close> picks \<^verbatim>\<open>LONG_MAX\<close>.\<close>

definition get_max_time_t :: "64 word" where
  "get_max_time_t = 0x7FFFFFFFFFFFFFFF"

text \<open>
  Lines 75 to 89 of \<^verbatim>\<open>wait_timeout_untraced_internal_4\<close>: the deadline from the clock
  reading, or \<open>None\<close> where the source returns \<open>-1\<close> at the overflow check.
\<close>

definition compute_deadline :: "timespec \<Rightarrow> 32 word \<Rightarrow> timespec option" where
  "compute_deadline ts timeout_ms =
     (let seconds = (ucast (timeout_ms div 1000) :: 64 word);
          nano_seconds = tv_nsec ts + ucast (timeout_ms mod 1000) * 1000000;
          seconds = seconds + long_div nano_seconds 1000000000;
          nano_seconds = long_mod nano_seconds 1000000000
      in if get_max_time_t - seconds <s tv_sec ts then None
         else Some \<lparr>tv_sec = tv_sec ts + seconds, tv_nsec = nano_seconds\<rparr>)"

text \<open>An instant as a count of nanoseconds, to state what the deadline is.\<close>

definition nanos :: "timespec \<Rightarrow> int" where
  "nanos ts = sint (tv_sec ts) * 1000000000 + sint (tv_nsec ts)"

section \<open>The racer\<close>

definition wait_timeout_untraced_internal_4 :: "env \<Rightarrow> 32 word \<Rightarrow> state \<Rightarrow> int \<times> state" where
  "wait_timeout_untraced_internal_4 e timeout_ms s =
     (let s = lib e (Ret (Clock_gettime CLOCK_MONOTONIC) (clock_gettime_ret e)) s
      in if clock_gettime_ret e \<noteq> 0 then (-1, s)
         else (case compute_deadline (clock_now e) timeout_ms of
                 None \<Rightarrow> (-1, s)
               | Some ts \<Rightarrow>
                   (let ret = cond_timedwait_ret e
                    in (ret, lib e (Ret (Pthread_cond_timedwait ts) ret) s))))"

text \<open>
  The result is \<open>None\<close> when the call never returns; the state then holds what the racer
  did up to the join it is blocked in.
\<close>

definition wait_timeout_untraced_internal_3 ::
    "env \<Rightarrow> proc_info_t \<Rightarrow> 32 word \<Rightarrow> state \<Rightarrow> pid_t option \<times> proc_info_t \<times> state" where
  "wait_timeout_untraced_internal_3 e proc_info timeout_ms s =
     (let s = lib e (Ret Pthread_create (pthread_create_ret e)) s
      in if pthread_create_ret e \<noteq> 0 then (Some (-1), proc_info, s)
         else
           (let s = lib e (Void Pthread_mutex_lock) s;
                (ret, s) = wait_timeout_untraced_internal_4 e timeout_ms s;
                s = lib e (Void Pthread_mutex_unlock) s;
                s = (if ret = ETIMEDOUT then lib e (Void Pthread_cancel) s else s)
            in (case pthread_join e (ret = ETIMEDOUT) proc_info of
                  None \<Rightarrow>
                    (None, proc_info,
                     s\<lparr>trace := trace s @ [Blocked Pthread_join],
                       waiter := snd (wait_for_process None proc_info)\<rparr>)
                | Some (proc_info, w) \<Rightarrow>
                    (let s = (lib e (Void Pthread_join) s)\<lparr>waiter := w\<rparr>
                     in if ret = ETIMEDOUT
                        then (Some (-1), proc_info,
                              s\<lparr>errno := ETIMEDOUT, trace := trace s @ [Store_errno ETIMEDOUT]\<rparr>)
                        else (Some (return_val proc_info), proc_info,
                              s\<lparr>trace := trace s @ [Load_return_val]\<rparr>)))))"

definition wait_timeout_untraced_internal_2 ::
    "env \<Rightarrow> pid_t \<Rightarrow> 32 word \<Rightarrow> state \<Rightarrow> pid_t option \<times> state" where
  "wait_timeout_untraced_internal_2 e p timeout_ms s =
     (let proc_info = \<lparr>pid = p, return_val = -1\<rparr>;
          s = s\<lparr>trace := trace s @ [Store_return_val (-1)]\<rparr>;
          s = lib e (Ret (Pthread_condattr_setclock CLOCK_MONOTONIC) (condattr_setclock_ret e)) s
      in if condattr_setclock_ret e \<noteq> 0 then (Some (-1), s)
         else
           (let s = lib e (Ret Pthread_cond_init (cond_init_ret e)) s
            in if cond_init_ret e \<noteq> 0 then (Some (-1), s)
               else (case wait_timeout_untraced_internal_3 e proc_info timeout_ms s of
                       (None, _, s) \<Rightarrow> (None, s)
                     | (Some result, _, s) \<Rightarrow>
                         (Some result, lib e (Void Pthread_cond_destroy) s))))"

definition wait_timeout_untraced_internal_1 ::
    "env \<Rightarrow> pid_t \<Rightarrow> 32 word \<Rightarrow> state \<Rightarrow> pid_t option \<times> state" where
  "wait_timeout_untraced_internal_1 e p timeout_ms s =
     (let s = lib e (Ret Pthread_condattr_init (condattr_init_ret e)) s
      in if condattr_init_ret e \<noteq> 0 then (Some (-1), s)
         else (case wait_timeout_untraced_internal_2 e p timeout_ms s of
                 (None, s) \<Rightarrow> (None, s)
               | (Some result, s) \<Rightarrow>
                   (Some result, lib e (Void Pthread_condattr_destroy) s)))"

definition wait_timeout_untraced ::
    "env \<Rightarrow> pid_t \<Rightarrow> 32 word \<Rightarrow> state \<Rightarrow> pid_t option \<times> state" where
  "wait_timeout_untraced e p timeout_ms s =
     (let s = lib e (Ret Pthread_mutex_init (mutex_init_ret e)) s
      in if mutex_init_ret e \<noteq> 0 then (Some (-1), s)
         else (case wait_timeout_untraced_internal_1 e p timeout_ms s of
                 (None, s) \<Rightarrow> (None, s)
               | (Some result, s) \<Rightarrow>
                   (Some result, lib e (Void Pthread_mutex_destroy) s)))"

text \<open>The state in which a thread enters the call: its \<^verbatim>\<open>errno\<close>, nothing done yet.\<close>

definition entry :: "int \<Rightarrow> state" where
  "entry errno0 = \<lparr>errno = errno0, trace = [], waiter = []\<rparr>"

section \<open>Reading a thread's events\<close>

text \<open>
  The resources of one call. \<open>track\<close> follows them along the racer's events: a
  successful initialisation or thread creation makes one live, its destruction or the
  join ends it, and \<open>orderly\<close> falls when the condition variable is destroyed before
  the thread is joined, or the mutex before the join or before the condition variable.
\<close>

record resources =
  mutex_live :: bool
  attr_live :: bool
  cond_live :: bool
  thread_live :: bool
  orderly :: bool

fun track :: "resources \<Rightarrow> event \<Rightarrow> resources" where
  "track r (Ret Pthread_mutex_init v) = (if v = 0 then r\<lparr>mutex_live := True\<rparr> else r)"
| "track r (Ret Pthread_condattr_init v) = (if v = 0 then r\<lparr>attr_live := True\<rparr> else r)"
| "track r (Ret Pthread_cond_init v) = (if v = 0 then r\<lparr>cond_live := True\<rparr> else r)"
| "track r (Ret Pthread_create v) = (if v = 0 then r\<lparr>thread_live := True\<rparr> else r)"
| "track r (Void Pthread_join) = r\<lparr>thread_live := False\<rparr>"
| "track r (Void Pthread_cond_destroy) =
     r\<lparr>cond_live := False, orderly := orderly r \<and> \<not> thread_live r\<rparr>"
| "track r (Void Pthread_condattr_destroy) = r\<lparr>attr_live := False\<rparr>"
| "track r (Void Pthread_mutex_destroy) =
     r\<lparr>mutex_live := False,
       orderly := orderly r \<and> \<not> thread_live r \<and> \<not> cond_live r\<rparr>"
| "track r _ = r"

definition nothing_live :: resources where
  "nothing_live = \<lparr>mutex_live = False, attr_live = False, cond_live = False,
     thread_live = False, orderly = True\<rparr>"

definition released :: "event list \<Rightarrow> bool" where
  "released evs = (foldl track nothing_live evs = nothing_live)"

text \<open>
  The stores to \<^verbatim>\<open>return_val\<close> among a thread's events: the values, and for each store
  whether the storing thread held the mutex (\<open>held\<close> is whether it holds it at the start).
\<close>

fun stores :: "event list \<Rightarrow> pid_t list" where
  "stores [] = []"
| "stores (Store_return_val v # evs) = v # stores evs"
| "stores (_ # evs) = stores evs"

fun store_locks :: "bool \<Rightarrow> event list \<Rightarrow> bool list" where
  "store_locks held [] = []"
| "store_locks held (Void Pthread_mutex_lock # evs) = store_locks True evs"
| "store_locks held (Void Pthread_mutex_unlock # evs) = store_locks False evs"
| "store_locks held (Store_return_val v # evs) = held # store_locks held evs"
| "store_locks held (_ # evs) = store_locks held evs"

text \<open>What the racer does once \<^verbatim>\<open>pthread_create\<close> has returned.\<close>

fun after_create :: "event list \<Rightarrow> event list" where
  "after_create [] = []"
| "after_create (Ret Pthread_create v # evs) = evs"
| "after_create (_ # evs) = after_create evs"

text \<open>The values the code itself stores to \<^verbatim>\<open>errno\<close>.\<close>

fun errno_stores :: "event list \<Rightarrow> int list" where
  "errno_stores [] = []"
| "errno_stores (Store_errno v # evs) = v # errno_stores evs"
| "errno_stores (_ # evs) = errno_stores evs"

text \<open>The deadlines of the waits on the condition variable among a thread's events.\<close>

fun cond_waits :: "event list \<Rightarrow> timespec list" where
  "cond_waits [] = []"
| "cond_waits (Ret (Pthread_cond_timedwait ts) r # evs) = ts # cond_waits evs"
| "cond_waits (_ # evs) = cond_waits evs"

text \<open>
  The kernel's side of \<^verbatim>\<open>waitid\<close>, as POSIX documents it: a call that returns collects
  a terminated target unless \<^verbatim>\<open>WNOWAIT\<close> is among its options, in which case the target
  stays waitable. \<open>target_after\<close> applies every \<^verbatim>\<open>waitid\<close> that returned among the
  events.
\<close>

datatype target = Running | Terminated | Collected

definition waitid_kernel :: "32 word \<Rightarrow> target \<Rightarrow> target" where
  "waitid_kernel options t = (if t = Terminated \<and> options AND WNOWAIT = 0 then Collected else t)"

fun wait_options :: "event \<Rightarrow> 32 word option" where
  "wait_options (Ret (Waitid idtype p options) r) = Some options"
| "wait_options _ = None"

definition target_after :: "event list \<Rightarrow> target \<Rightarrow> target" where
  "target_after evs t =
     foldl (\<lambda>t ev. case wait_options ev of None \<Rightarrow> t | Some options \<Rightarrow> waitid_kernel options t)
       t evs"

section \<open>Sample environments\<close>

text \<open>
  Every call succeeds, the clock reads 100 s, the wait is signalled, \<^verbatim>\<open>waitid\<close> finds
  the target terminated, and no library call touches \<^verbatim>\<open>errno\<close>.
\<close>

definition all_succeed :: env where
  "all_succeed =
     \<lparr>mutex_init_ret = 0, condattr_init_ret = 0, condattr_setclock_ret = 0, cond_init_ret = 0,
      pthread_create_ret = 0, clock_gettime_ret = 0,
      clock_now = \<lparr>tv_sec = 100, tv_nsec = 0\<rparr>,
      cond_timedwait_ret = 0, waitid_ret = Some 0, cancel_wins = False,
      lib_errno = (\<lambda>ev x. x)\<rparr>"

text \<open>The target outlives the deadline: the wait times out, the waiter is cancelled.\<close>

definition target_outlives :: env where
  "target_outlives =
     all_succeed\<lparr>cond_timedwait_ret := ETIMEDOUT, waitid_ret := None, cancel_wins := True\<rparr>"

text \<open>The clock reads the last second \<^verbatim>\<open>time_t\<close> can hold.\<close>

definition clock_at_max :: env where
  "clock_at_max = all_succeed\<lparr>clock_now := \<lparr>tv_sec = 0x7FFFFFFFFFFFFFFF, tv_nsec = 0\<rparr>\<rparr>"

section \<open>The two threads, interleaved\<close>

text \<open>
  The race of \<^verbatim>\<open>wait_timeout_untraced_internal_3\<close> against \<^verbatim>\<open>wait_for_process\<close>, one
  source statement at a time, on the runs where thread creation and the clock read
  succeed, the deadline fits and \<^verbatim>\<open>waitid\<close> succeeds once the target has terminated.
  A program point names the statement the thread executes next (source lines in
  brackets).
\<close>

datatype thread = Racer | Waiter

datatype racer_pc =
    R_create      \<comment> \<open>[103] \<^verbatim>\<open>pthread_create\<close>\<close>
  | R_lock        \<comment> \<open>[109] \<^verbatim>\<open>pthread_mutex_lock\<close>\<close>
  | R_deadline    \<comment> \<open>[70-89] clock read and deadline\<close>
  | R_timedwait   \<comment> \<open>[91] entering \<^verbatim>\<open>pthread_cond_timedwait\<close>\<close>
  | R_waiting     \<comment> \<open>[91] inside it, mutex released\<close>
  | R_unlock      \<comment> \<open>[114] \<^verbatim>\<open>pthread_mutex_unlock\<close>\<close>
  | R_cancel      \<comment> \<open>[117-121] \<^verbatim>\<open>pthread_cancel\<close> if timed out\<close>
  | R_join        \<comment> \<open>[125] \<^verbatim>\<open>pthread_join\<close>\<close>
  | R_result      \<comment> \<open>[127-134] the result\<close>
  | R_done

datatype waiter_pc =
    W_unborn
  | W_waitid      \<comment> \<open>[29] inside \<^verbatim>\<open>waitid\<close>\<close>
  | W_store       \<comment> \<open>[32] \<^verbatim>\<open>return_val = 0\<close>\<close>
  | W_lock        \<comment> \<open>[39] \<^verbatim>\<open>pthread_mutex_lock\<close>\<close>
  | W_signal      \<comment> \<open>[42] \<^verbatim>\<open>pthread_cond_signal\<close>\<close>
  | W_unlock      \<comment> \<open>[45] \<^verbatim>\<open>pthread_mutex_unlock\<close>\<close>
  | W_exit        \<comment> \<open>[47] returned\<close>
  | W_cancelled

record world =
  rpc :: racer_pc
  wpc :: waiter_pc
  mutex :: "thread option"          \<comment> \<open>the owner of the mutex\<close>
  signalled :: bool                 \<comment> \<open>a signal has reached the waiting racer\<close>
  shared_return_val :: pid_t        \<comment> \<open>\<^verbatim>\<open>proc_info->return_val\<close>\<close>
  ret :: int                        \<comment> \<open>the racer's local \<^verbatim>\<open>ret\<close>\<close>
  racer_errno :: int
  returned :: "pid_t option"        \<comment> \<open>what \<^verbatim>\<open>internal_3\<close> returned\<close>
  cancel_requested :: bool
  target_terminated :: bool
  armed :: bool                     \<comment> \<open>the deadline has been computed\<close>
  deadline_passed :: bool

text \<open>
  What can happen next: a thread executes its next statement, a pending cancellation
  takes effect, the target terminates, the deadline passes.
\<close>

datatype action = Step thread | Cancellation | Target_terminates | Deadline_passes

text \<open>At the call: \<^verbatim>\<open>return_val\<close> is \<open>-1\<close> (line 143), nothing has happened yet.\<close>

definition start :: "int \<Rightarrow> world" where
  "start errno0 =
     \<lparr>rpc = R_create, wpc = W_unborn, mutex = None, signalled = False,
      shared_return_val = -1, ret = 0, racer_errno = errno0, returned = None,
      cancel_requested = False, target_terminated = False, armed = False,
      deadline_passed = False\<rparr>"

text \<open>One statement of the racer; \<open>None\<close> where it cannot run (it is blocked, or done).\<close>

fun racer_step :: "racer_pc \<Rightarrow> world \<Rightarrow> world option" where
  "racer_step R_create w = Some (w\<lparr>wpc := W_waitid, rpc := R_lock\<rparr>)"
| "racer_step R_lock w =
     (if mutex w = None then Some (w\<lparr>mutex := Some Racer, rpc := R_deadline\<rparr>) else None)"
| "racer_step R_deadline w = Some (w\<lparr>armed := True, rpc := R_timedwait\<rparr>)"
| "racer_step R_timedwait w =
     (if deadline_passed w then Some (w\<lparr>ret := ETIMEDOUT, rpc := R_unlock\<rparr>)
      else Some (w\<lparr>mutex := None, rpc := R_waiting\<rparr>))"
| "racer_step R_waiting w =
     (if mutex w = None \<and> signalled w
      then Some (w\<lparr>mutex := Some Racer, ret := 0, rpc := R_unlock\<rparr>)
      else if mutex w = None \<and> deadline_passed w
      then Some (w\<lparr>mutex := Some Racer, ret := ETIMEDOUT, rpc := R_unlock\<rparr>)
      else None)"
| "racer_step R_unlock w = Some (w\<lparr>mutex := None, rpc := R_cancel\<rparr>)"
| "racer_step R_cancel w =
     Some (w\<lparr>cancel_requested := (ret w = ETIMEDOUT), rpc := R_join\<rparr>)"
| "racer_step R_join w =
     (if wpc w = W_exit \<or> wpc w = W_cancelled then Some (w\<lparr>rpc := R_result\<rparr>) else None)"
| "racer_step R_result w =
     (if ret w = ETIMEDOUT
      then Some (w\<lparr>racer_errno := ETIMEDOUT, returned := Some (-1), rpc := R_done\<rparr>)
      else Some (w\<lparr>returned := Some (shared_return_val w), rpc := R_done\<rparr>))"
| "racer_step R_done w = None"

text \<open>
  One statement of the waiter. A signal wakes the racer only if the racer is waiting on
  the condition variable at that moment; otherwise it has no effect.
\<close>

fun waiter_step :: "waiter_pc \<Rightarrow> world \<Rightarrow> world option" where
  "waiter_step W_unborn w = None"
| "waiter_step W_waitid w = (if target_terminated w then Some (w\<lparr>wpc := W_store\<rparr>) else None)"
| "waiter_step W_store w = Some (w\<lparr>shared_return_val := 0, wpc := W_lock\<rparr>)"
| "waiter_step W_lock w =
     (if mutex w = None then Some (w\<lparr>mutex := Some Waiter, wpc := W_signal\<rparr>) else None)"
| "waiter_step W_signal w =
     Some (w\<lparr>signalled := (signalled w \<or> rpc w = R_waiting), wpc := W_unlock\<rparr>)"
| "waiter_step W_unlock w = Some (w\<lparr>mutex := None, wpc := W_exit\<rparr>)"
| "waiter_step W_exit w = None"
| "waiter_step W_cancelled w = None"

fun step :: "action \<Rightarrow> world \<Rightarrow> world option" where
  "step (Step Racer) w = racer_step (rpc w) w"
| "step (Step Waiter) w = waiter_step (wpc w) w"
| "step Cancellation w =
     (if cancel_requested w \<and> wpc w = W_waitid then Some (w\<lparr>wpc := W_cancelled\<rparr>) else None)"
| "step Target_terminates w =
     (if target_terminated w then None else Some (w\<lparr>target_terminated := True\<rparr>))"
| "step Deadline_passes w =
     (if armed w \<and> \<not> deadline_passed w then Some (w\<lparr>deadline_passed := True\<rparr>) else None)"

text \<open>A schedule runs from a world, or is not a run of the two threads (\<open>None\<close>).\<close>

fun run :: "action list \<Rightarrow> world \<Rightarrow> world option" where
  "run [] w = Some w"
| "run (a # as) w = (case step a w of None \<Rightarrow> None | Some w' \<Rightarrow> run as w')"

text \<open>The target terminates before the deadline passes, in a schedule.\<close>

definition terminates_in_time :: "action list \<Rightarrow> bool" where
  "terminates_in_time sched =
     (Target_terminates \<in> set (takeWhile (\<lambda>a. a \<noteq> Deadline_passes) sched))"

text \<open>
  The target has terminated before the racer even takes the lock: the waiter runs to its
  end first, then the racer waits until the deadline.
\<close>

definition signal_first :: "action list" where
  "signal_first =
     [Step Racer, Target_terminates,
      Step Waiter, Step Waiter, Step Waiter, Step Waiter, Step Waiter,
      Step Racer, Step Racer, Step Racer,
      Deadline_passes,
      Step Racer, Step Racer, Step Racer, Step Racer, Step Racer]"

text \<open>
  The lock discipline of the two threads: who holds the mutex, by program point.
\<close>

definition lock_discipline :: "world \<Rightarrow> bool" where
  "lock_discipline w =
     ((mutex w = Some Waiter) = (wpc w = W_signal \<or> wpc w = W_unlock)
      \<and> (mutex w = Some Racer) = (rpc w = R_deadline \<or> rpc w = R_timedwait \<or> rpc w = R_unlock)
      \<and> (wpc w = W_unborn) = (rpc w = R_create))"

section \<open>Deadline arithmetic\<close>

lemma sint64_of_int:
  "- (2 ^ 63) \<le> k \<Longrightarrow> k < 2 ^ 63 \<Longrightarrow> sint (word_of_int k :: 64 word) = k"
  by (simp add: sint_sbintrunc' signed_take_bit_int_eq_self)

lemma word64_of_sint: "word_of_int (sint (w :: 64 word)) = w"
  by simp

lemma sint_ucast_32_64: "sint (ucast (w :: 32 word) :: 64 word) = uint w"
proof -
  have "uint w < 2 ^ 32" using uint_lt2p [of w] by simp
  then have hi: "uint w < 2 ^ 63" by simp
  have "0 \<le> uint w" by simp
  then have lo: "- (2 ^ 63) \<le> uint w" by (rule order_trans [rotated]) simp
  have "(ucast w :: 64 word) = word_of_int (uint w)" by simp
  then show ?thesis using sint64_of_int [OF lo hi] by simp
qed

lemma sdiv_nonneg: "0 \<le> (a::int) \<Longrightarrow> 0 < b \<Longrightarrow> a sdiv b = a div b"
  by (simp add: signed_divide_int_def sgn_if)

lemma smod_nonneg: "0 \<le> (a::int) \<Longrightarrow> 0 < b \<Longrightarrow> a smod b = a mod b"
  by (simp add: signed_modulo_int_def sgn_if)

text \<open>
  On a clock reading as \<^verbatim>\<open>clock_gettime\<close> gives it, no intermediate value of the
  computation wraps, so it is the same computation on unbounded integers.
\<close>

lemma compute_deadline_int:
  assumes sec: "0 \<le> sint (tv_sec ts)"
    and ns0: "0 \<le> sint (tv_nsec ts)" and ns1: "sint (tv_nsec ts) < 1000000000"
  shows "compute_deadline ts t =
    (let n = sint (tv_nsec ts) + (uint t mod 1000) * 1000000;
         s = uint t div 1000 + n div 1000000000
     in if 9223372036854775807 - s < sint (tv_sec ts) then None
        else Some \<lparr>tv_sec = word_of_int (sint (tv_sec ts) + s),
                        tv_nsec = word_of_int (n mod 1000000000)\<rparr>)"
proof -
  define m where "m = uint t mod 1000"
  define q where "q = uint t div 1000"
  define n where "n = sint (tv_nsec ts) + m * 1000000"
  have m: "0 \<le> m" "m < 1000" by (simp_all add: m_def)
  have "uint t < 2 ^ 32" using uint_lt2p [of t] by simp
  then have "uint t \<le> 4294967295" by simp
  then have "uint t div 1000 \<le> 4294967295 div 1000" by (rule zdiv_mono1) simp
  then have q: "0 \<le> q" "q < 4294968" by (simp_all add: q_def div_int_pos_iff)
  have n: "0 \<le> n" "n < 2000000000" using m ns0 ns1 by (simp_all add: n_def)
  have um: "sint (ucast (t mod 1000) :: 64 word) = m"
    by (simp add: sint_ucast_32_64 uint_mod m_def)
  have uq: "sint (ucast (t div 1000) :: 64 word) = q"
    by (simp add: sint_ucast_32_64 uint_div q_def)
  have mul: "sint ((ucast (t mod 1000) :: 64 word) * 1000000) = m * 1000000"
  proof -
    have "(ucast (t mod 1000) :: 64 word) * 1000000 = word_of_int (m * 1000000)"
      using um by (metis word64_of_sint wi_hom_mult word_of_int_numeral)
    then show ?thesis using m sint64_of_int [of "m * 1000000"] by simp
  qed
  have ten9: "sint (1000000000 :: 64 word) = 1000000000" by simp
  have nw: "sint (tv_nsec ts + (ucast (t mod 1000) :: 64 word) * 1000000) = n"
    using n by (simp add: sint_word_add mul signed_take_bit_int_eq_self n_def)
  have d: "0 \<le> n div 1000000000" "n div 1000000000 < 2"
  proof -
    show "0 \<le> n div 1000000000" using n by (simp add: div_int_pos_iff)
    have "n \<le> 1999999999" using n by simp
    then have "n div 1000000000 \<le> 1999999999 div 1000000000" by (rule zdiv_mono1) simp
    then show "n div 1000000000 < 2" by simp
  qed
  have ldiv: "long_div (tv_nsec ts + (ucast (t mod 1000) :: 64 word) * 1000000) 1000000000
      = word_of_int (n div 1000000000)"
    using n by (simp only: long_div_def nw ten9 sdiv_nonneg)
  have lmod: "long_mod (tv_nsec ts + (ucast (t mod 1000) :: 64 word) * 1000000) 1000000000
      = word_of_int (n mod 1000000000)"
    using n by (simp only: long_mod_def nw ten9 smod_nonneg)
  define s where "s = q + n div 1000000000"
  have s: "0 \<le> s" "s < 4294970" using q d by (simp_all add: s_def)
  have sw: "(ucast (t div 1000) :: 64 word) + word_of_int (n div 1000000000) = word_of_int s"
    using uq by (metis s_def word64_of_sint wi_hom_add)
  have ssw: "sint (word_of_int s :: 64 word) = s"
    using s by (intro sint64_of_int) simp_all
  have mx: "sint (get_max_time_t - word_of_int s) = 9223372036854775807 - s"
    using s by (simp add: sint_word_diff ssw get_max_time_t_def signed_take_bit_int_eq_self)
  have sum: "tv_sec ts + word_of_int s = word_of_int (sint (tv_sec ts) + s)"
    by (metis word64_of_sint wi_hom_add)
  show ?thesis
    unfolding compute_deadline_def Let_def ldiv lmod sw word_sless_alt mx sum
    unfolding s_def q_def n_def m_def by (rule refl)
qed

lemma div_split_ms:
  "uint (t :: 32 word) div 1000 + (a + (uint t mod 1000) * 1000000) div 1000000000
     = (a + uint t * 1000000) div (1000000000 :: int)"
proof -
  define q where "q = uint t div 1000"
  define r where "r = uint t mod 1000"
  have "uint t = q * 1000 + r" by (simp add: q_def r_def)
  then have "a + uint t * 1000000 = (a + r * 1000000) + q * 1000000000"
    by simp
  then have "(a + uint t * 1000000) div 1000000000 = q + (a + r * 1000000) div 1000000000"
    by (simp only: div_mult_self1)
  then show ?thesis by (simp add: q_def r_def)
qed

lemma compute_deadline_None_iff:
  assumes sec: "0 \<le> sint (tv_sec ts)"
    and ns0: "0 \<le> sint (tv_nsec ts)" and ns1: "sint (tv_nsec ts) < 1000000000"
  shows "compute_deadline ts t = None \<longleftrightarrow>
      sint get_max_time_t < (nanos ts + uint t * 1000000) div 1000000000"
proof -
  define S where "S = (sint (tv_nsec ts) + uint t * 1000000) div 1000000000"
  have "nanos ts + uint t * 1000000
      = (sint (tv_nsec ts) + uint t * 1000000) + sint (tv_sec ts) * 1000000000"
    by (simp add: nanos_def)
  then have "(nanos ts + uint t * 1000000) div 1000000000 = sint (tv_sec ts) + S"
    unfolding S_def by (simp only: div_mult_self1)
  moreover have "sint get_max_time_t = 9223372036854775807"
    by (simp add: get_max_time_t_def)
  moreover have "compute_deadline ts t = None \<longleftrightarrow> 9223372036854775807 - S < sint (tv_sec ts)"
    unfolding compute_deadline_int [OF sec ns0 ns1] Let_def div_split_ms S_def by simp
  ultimately show ?thesis by auto
qed

lemma compute_deadline_Some:
  assumes sec: "0 \<le> sint (tv_sec ts)"
    and ns0: "0 \<le> sint (tv_nsec ts)" and ns1: "sint (tv_nsec ts) < 1000000000"
    and d: "compute_deadline ts t = Some d"
  shows "nanos d = nanos ts + uint t * 1000000
       \<and> 0 \<le> sint (tv_nsec d) \<and> sint (tv_nsec d) < 1000000000
       \<and> sint (tv_sec ts) \<le> sint (tv_sec d)"
proof -
  define n where "n = sint (tv_nsec ts) + (uint t mod 1000) * 1000000"
  define S where "S = uint t div 1000 + n div 1000000000"
  have S0: "0 \<le> S"
    using ns0 by (simp add: S_def n_def div_int_pos_iff)
  from d have fits: "\<not> 9223372036854775807 - S < sint (tv_sec ts)"
    and dd: "d = \<lparr>tv_sec = word_of_int (sint (tv_sec ts) + S),
                    tv_nsec = word_of_int (n mod 1000000000)\<rparr>"
    unfolding compute_deadline_int [OF sec ns0 ns1] Let_def S_def n_def
    by (simp_all split: if_splits)
  have dsec: "sint (tv_sec d) = sint (tv_sec ts) + S"
  proof -
    have "sint (word_of_int (sint (tv_sec ts) + S) :: 64 word) = sint (tv_sec ts) + S"
      using sec S0 fits by (intro sint64_of_int) simp_all
    moreover have "tv_sec d = word_of_int (sint (tv_sec ts) + S)"
      unfolding dd by (simp only: timespec.select_convs)
    ultimately show ?thesis by (simp only:)
  qed
  have r: "0 \<le> n mod 1000000000" "n mod 1000000000 < 1000000000" by simp_all
  have dns: "sint (tv_nsec d) = n mod 1000000000"
  proof -
    have "sint (word_of_int (n mod 1000000000) :: 64 word) = n mod 1000000000"
      using r by (intro sint64_of_int) simp_all
    moreover have "tv_nsec d = word_of_int (n mod 1000000000)"
      unfolding dd by (simp only: timespec.select_convs)
    ultimately show ?thesis by (simp only:)
  qed
  define q where "q = uint t div 1000"
  define r' where "r' = uint t mod 1000"
  have t: "uint t = q * 1000 + r'" by (simp add: q_def r'_def)
  have "n div 1000000000 * 1000000000 + n mod 1000000000 = n" by simp
  then have "S * 1000000000 + n mod 1000000000 = q * 1000000000 + n"
    unfolding S_def q_def by (simp only: distrib_right)
  also have "\<dots> = sint (tv_nsec ts) + (q * 1000 + r') * 1000000"
    unfolding n_def r'_def by (simp add: algebra_simps)
  also have "\<dots> = sint (tv_nsec ts) + uint t * 1000000" by (simp only: t)
  finally have "nanos d = nanos ts + uint t * 1000000"
    by (simp add: nanos_def dsec dns algebra_simps)
  then show ?thesis using r S0 by (simp add: dsec dns)
qed

text \<open>
  Claim C3. For every clock reading with \<open>tv_sec \<ge> 0\<close> and \<open>0 \<le> tv_nsec < 10\<^sup>9\<close> and
  every 32-bit \<open>timeout_ms\<close>, zero included: the computation rejects (the source returns
  \<open>-1\<close> before it writes the deadline) exactly when the seconds of reading plus
  timeout exceed the largest \<^verbatim>\<open>time_t\<close>; otherwise the deadline is the reading plus
  exactly \<open>timeout_ms\<close> milliseconds, its \<open>tv_nsec\<close> lies in \<open>[0, 10\<^sup>9)\<close>, its seconds
  are not below the reading's (nothing wrapped), and a larger timeout gives a strictly
  later deadline, as a nanosecond count and as a (seconds, nanoseconds) pair.
\<close>

theorem compute_deadline_exact:
  assumes sec: "0 \<le> sint (tv_sec ts)"
    and ns0: "0 \<le> sint (tv_nsec ts)" and ns1: "sint (tv_nsec ts) < 1000000000"
  shows "(compute_deadline ts t = None \<longleftrightarrow>
            sint get_max_time_t < (nanos ts + uint t * 1000000) div 1000000000)
       \<and> (\<forall>d. compute_deadline ts t = Some d \<longrightarrow>
            nanos d = nanos ts + uint t * 1000000
          \<and> 0 \<le> sint (tv_nsec d) \<and> sint (tv_nsec d) < 1000000000
          \<and> sint (tv_sec ts) \<le> sint (tv_sec d))
       \<and> (\<forall>t' d d'. t < t' \<and> compute_deadline ts t = Some d \<and> compute_deadline ts t' = Some d' \<longrightarrow>
            nanos d < nanos d'
          \<and> (sint (tv_sec d) < sint (tv_sec d')
             \<or> tv_sec d = tv_sec d' \<and> sint (tv_nsec d) < sint (tv_nsec d')))"
proof -
  have none: "compute_deadline ts t = None \<longleftrightarrow>
      sint get_max_time_t < (nanos ts + uint t * 1000000) div 1000000000"
    using compute_deadline_None_iff [OF sec ns0 ns1] .
  have some: "\<And>u d. compute_deadline ts u = Some d \<Longrightarrow>
      nanos d = nanos ts + uint u * 1000000
        \<and> 0 \<le> sint (tv_nsec d) \<and> sint (tv_nsec d) < 1000000000
        \<and> sint (tv_sec ts) \<le> sint (tv_sec d)"
    using compute_deadline_Some [OF sec ns0 ns1] by blast
  have mono: "nanos d < nanos d'
      \<and> (sint (tv_sec d) < sint (tv_sec d')
         \<or> tv_sec d = tv_sec d' \<and> sint (tv_nsec d) < sint (tv_nsec d'))"
    if lt: "t < t'" and d: "compute_deadline ts t = Some d"
      and d': "compute_deadline ts t' = Some d'" for t' d d'
  proof -
    have "uint t < uint t'" using lt by (simp add: word_less_def)
    then have n: "nanos d < nanos d'" using some [OF d] some [OF d'] by simp
    have b: "0 \<le> sint (tv_nsec d)" "sint (tv_nsec d) < 1000000000"
      "0 \<le> sint (tv_nsec d')" "sint (tv_nsec d') < 1000000000"
      using some [OF d] some [OF d'] by simp_all
    have le: "sint (tv_sec d) \<le> sint (tv_sec d')"
      using n b unfolding nanos_def by arith
    have "sint (tv_nsec d) < sint (tv_nsec d')" if "sint (tv_sec d) = sint (tv_sec d')"
      using n that unfolding nanos_def by simp
    moreover have "tv_sec d = tv_sec d'" if "sint (tv_sec d) = sint (tv_sec d')"
      using that by (simp add: signed_word_eqI)
    ultimately show ?thesis using n le by (cases "sint (tv_sec d) = sint (tv_sec d')") auto
  qed
  show ?thesis using none some mono by blast
qed

text \<open>
  The theorem at the reading (5 s, 999999999 ns) with timeouts 1500 and 1501, and at a
  reading in the last representable second with timeout 1000.
\<close>

theorem compute_deadline_exact_witness:
  "compute_deadline \<lparr>tv_sec = 5, tv_nsec = 999999999\<rparr> 1500
      = Some \<lparr>tv_sec = 7, tv_nsec = 499999999\<rparr>
   \<and> nanos \<lparr>tv_sec = 7, tv_nsec = 499999999\<rparr>
      = nanos \<lparr>tv_sec = 5, tv_nsec = 999999999\<rparr> + 1500 * 1000000
   \<and> compute_deadline \<lparr>tv_sec = 5, tv_nsec = 999999999\<rparr> 1501
      = Some \<lparr>tv_sec = 7, tv_nsec = 500999999\<rparr>
   \<and> nanos \<lparr>tv_sec = 7, tv_nsec = 499999999\<rparr>
      < nanos \<lparr>tv_sec = 7, tv_nsec = 500999999\<rparr>
   \<and> compute_deadline \<lparr>tv_sec = 0x7FFFFFFFFFFFFFFF, tv_nsec = 0\<rparr> 1000 = None
   \<and> sint get_max_time_t
      < (nanos \<lparr>tv_sec = 0x7FFFFFFFFFFFFFFF, tv_nsec = 0\<rparr> + 1000 * 1000000) div 1000000000"
proof -
  let ?ts = "\<lparr>tv_sec = 5, tv_nsec = 999999999\<rparr> :: timespec"
  let ?late = "\<lparr>tv_sec = 0x7FFFFFFFFFFFFFFF, tv_nsec = 0\<rparr> :: timespec"
  have h: "0 \<le> sint (tv_sec ?ts)" "0 \<le> sint (tv_nsec ?ts)" "sint (tv_nsec ?ts) < 1000000000"
    by simp_all
  have k: "0 \<le> sint (tv_sec ?late)" "0 \<le> sint (tv_nsec ?late)"
    "sint (tv_nsec ?late) < 1000000000"
    by simp_all
  have e1: "compute_deadline ?ts 1500 = Some \<lparr>tv_sec = 7, tv_nsec = 499999999\<rparr>"
    by (simp add: compute_deadline_def get_max_time_t_def Let_def word_sless_alt
        long_div_def long_mod_def signed_divide_int_def signed_modulo_int_def)
  have e2: "compute_deadline ?ts 1501 = Some \<lparr>tv_sec = 7, tv_nsec = 500999999\<rparr>"
    by (simp add: compute_deadline_def get_max_time_t_def Let_def word_sless_alt
        long_div_def long_mod_def signed_divide_int_def signed_modulo_int_def)
  have e3: "compute_deadline ?late 1000 = None"
    by (simp add: compute_deadline_def get_max_time_t_def Let_def word_sless_alt
        long_div_def long_mod_def signed_divide_int_def signed_modulo_int_def)
  have lt: "(1500 :: 32 word) < 1501" by simp
  note a = compute_deadline_exact [OF h, of 1500]
  note b = compute_deadline_exact [OF k, of 1000]
  have "nanos \<lparr>tv_sec = 7, tv_nsec = 499999999\<rparr> = nanos ?ts + uint (1500 :: 32 word) * 1000000"
    using a e1 by blast
  moreover have "nanos \<lparr>tv_sec = 7, tv_nsec = 499999999\<rparr>
      < nanos \<lparr>tv_sec = 7, tv_nsec = 500999999\<rparr>"
    using a e1 e2 lt by blast
  moreover have "sint get_max_time_t < (nanos ?late + uint (1000 :: 32 word) * 1000000) div 1000000000"
    using b e3 by blast
  ultimately show ?thesis using e1 e2 e3 by simp
qed


section \<open>The racer and the waiter, path by path\<close>

lemmas call_defs =
  wait_timeout_untraced_def wait_timeout_untraced_internal_1_def
  wait_timeout_untraced_internal_2_def wait_timeout_untraced_internal_3_def
  wait_timeout_untraced_internal_4_def lib_def pthread_join_def wait_for_process_def
  waitid_call_def entry_def Let_def

lemmas sample_defs =
  all_succeed_def target_outlives_def clock_at_max_def

lemmas deadline_defs =
  compute_deadline_def get_max_time_t_def long_div_def long_mod_def word_sless_alt
  signed_divide_int_def signed_modulo_int_def

lemma deadline_all_succeed:
  "compute_deadline (clock_now all_succeed) 2000 = Some \<lparr>tv_sec = 102, tv_nsec = 0\<rparr>"
  by (simp add: sample_defs deadline_defs Let_def)

lemma deadline_target_outlives:
  "compute_deadline (clock_now target_outlives) 2000 = Some \<lparr>tv_sec = 102, tv_nsec = 0\<rparr>"
  by (simp add: sample_defs deadline_defs Let_def)

lemma deadline_clock_at_max:
  "compute_deadline (clock_now clock_at_max) 1000 = None"
  by (simp add: sample_defs deadline_defs Let_def)




section \<open>The waiter's wait\<close>

lemma wait_options_bits:
  "(WNOWAIT OR WEXITED) AND WNOWAIT = WNOWAIT"
  "(WNOWAIT OR WEXITED) AND WEXITED = WEXITED"
  "(WNOWAIT OR WEXITED) AND WNOHANG = 0"
  by (simp_all add: WNOWAIT_def WEXITED_def WNOHANG_def)

lemma waitid_kernel_peek: "waitid_kernel (WNOWAIT OR WEXITED) t = t"
  by (simp add: waitid_kernel_def wait_options_bits WNOWAIT_def)

lemma target_after_call:
  "target_after (trace (snd (wait_timeout_untraced e p timeout_ms (entry errno0)))
      @ waiter (snd (wait_timeout_untraced e p timeout_ms (entry errno0)))) t = t"
  by (simp add: call_defs target_after_def waitid_kernel_peek split: option.splits)

lemma waiter_of_call:
  "waiter (snd (wait_timeout_untraced e p timeout_ms (entry errno0))) = []
   \<or> (\<exists>w. waiter (snd (wait_timeout_untraced e p timeout_ms (entry errno0)))
          = snd (wait_for_process w \<lparr>pid = p, return_val = -1\<rparr>))"
proof -
  have "waiter (snd (wait_timeout_untraced e p timeout_ms (entry errno0)))
      \<in> {[], snd (wait_for_process None \<lparr>pid = p, return_val = -1\<rparr>),
          snd (wait_for_process (waitid_ret e) \<lparr>pid = p, return_val = -1\<rparr>)}"
    by (simp add: call_defs split: option.splits)
  then show ?thesis by blast
qed

text \<open>
  Claim C2. For every pid the waiter calls \<^verbatim>\<open>waitid(P_PID, pid, &info, WNOWAIT | WEXITED)\<close>:
  \<^verbatim>\<open>WNOWAIT\<close> and \<^verbatim>\<open>WEXITED\<close> are among the options and \<^verbatim>\<open>WNOHANG\<close> is not, so the
  wait blocks, observes termination and leaves a terminated target as it found it. The
  waiter then records \<open>-1\<close> if the call returned \<open>-1\<close> and \<open>0\<close> otherwise. In a whole call
  of \<^verbatim>\<open>wait_timeout_untraced\<close> the waiter runs on the caller's pid, and all the
  \<^verbatim>\<open>waitid\<close> calls of both threads together leave the target's state unchanged.
\<close>

theorem waiter_peeks_and_records:
  "wait_for_process (Some r) proc_info =
      (proc_info\<lparr>return_val := (if r = -1 then -1 else 0)\<rparr>,
       [Ret (Waitid P_PID (pid proc_info) (WNOWAIT OR WEXITED)) r,
        Store_return_val (if r = -1 then -1 else 0),
        Void Pthread_mutex_lock, Void Pthread_cond_signal, Void Pthread_mutex_unlock])
   \<and> wait_for_process None proc_info =
      (proc_info, [Blocked (Waitid P_PID (pid proc_info) (WNOWAIT OR WEXITED))])
   \<and> (WNOWAIT OR WEXITED) AND WNOWAIT = WNOWAIT
   \<and> (WNOWAIT OR WEXITED) AND WEXITED = WEXITED
   \<and> (WNOWAIT OR WEXITED) AND WNOHANG = 0
   \<and> waitid_kernel (WNOWAIT OR WEXITED) t = t
   \<and> (waiter (snd (wait_timeout_untraced e p timeout_ms (entry errno0))) = []
      \<or> (\<exists>w. waiter (snd (wait_timeout_untraced e p timeout_ms (entry errno0)))
             = snd (wait_for_process w \<lparr>pid = p, return_val = -1\<rparr>)))
   \<and> target_after (trace (snd (wait_timeout_untraced e p timeout_ms (entry errno0)))
        @ waiter (snd (wait_timeout_untraced e p timeout_ms (entry errno0)))) t = t"
proof -
  have "wait_for_process (Some r) proc_info =
      (proc_info\<lparr>return_val := (if r = -1 then -1 else 0)\<rparr>,
       [Ret (Waitid P_PID (pid proc_info) (WNOWAIT OR WEXITED)) r,
        Store_return_val (if r = -1 then -1 else 0),
        Void Pthread_mutex_lock, Void Pthread_cond_signal, Void Pthread_mutex_unlock])"
    by (simp add: wait_for_process_def waitid_call_def Let_def)
  moreover have "wait_for_process None proc_info =
      (proc_info, [Blocked (Waitid P_PID (pid proc_info) (WNOWAIT OR WEXITED))])"
    by (simp add: wait_for_process_def waitid_call_def)
  ultimately show ?thesis
    using wait_options_bits waitid_kernel_peek [of t]
      waiter_of_call [of e p timeout_ms errno0] target_after_call [of e p timeout_ms errno0 t]
    by (simp only: simp_thms)
qed

section \<open>Resources\<close>

text \<open>
  Claim C9. On every path on which \<^verbatim>\<open>wait_timeout_untraced\<close> returns, error paths
  included, the racer's events leave nothing live: each mutex, condition attribute and
  condition variable that was initialised with success has been destroyed, a created
  thread has been joined, and the join came before the destruction of the condition
  variable, which came before the destruction of the mutex.
\<close>

theorem nothing_outlives_the_call:
  assumes "wait_timeout_untraced e p timeout_ms (entry errno0) = (Some result, s)"
  shows "released (trace s)"
  using assms
  by (auto simp add: call_defs released_def nothing_live_def
      split: option.splits if_splits prod.splits)

text \<open>A timeout path and an early error path (the condition variable is not created).\<close>

theorem nothing_outlives_the_call_witness:
  "wait_timeout_untraced target_outlives 4242 2000 (entry 0)
     = (Some (-1), snd (wait_timeout_untraced target_outlives 4242 2000 (entry 0)))
   \<and> released (trace (snd (wait_timeout_untraced target_outlives 4242 2000 (entry 0))))
   \<and> wait_timeout_untraced (all_succeed\<lparr>cond_init_ret := 12\<rparr>) 4242 2000 (entry 0)
     = (Some (-1), snd (wait_timeout_untraced (all_succeed\<lparr>cond_init_ret := 12\<rparr>) 4242 2000 (entry 0)))
   \<and> released (trace (snd (wait_timeout_untraced (all_succeed\<lparr>cond_init_ret := 12\<rparr>)
         4242 2000 (entry 0))))"
proof -
  have a: "wait_timeout_untraced target_outlives 4242 2000 (entry 0)
      = (Some (-1), snd (wait_timeout_untraced target_outlives 4242 2000 (entry 0)))"
    using deadline_target_outlives by (simp add: call_defs sample_defs)
  have b: "wait_timeout_untraced (all_succeed\<lparr>cond_init_ret := 12\<rparr>) 4242 2000 (entry 0)
      = (Some (-1), snd (wait_timeout_untraced (all_succeed\<lparr>cond_init_ret := 12\<rparr>) 4242 2000 (entry 0)))"
    by (simp add: call_defs sample_defs)
  show ?thesis
    using a b nothing_outlives_the_call [OF a] nothing_outlives_the_call [OF b] by blast
qed

section \<open>The overflow check comes after the thread\<close>

text \<open>
  Against claim C4 as stated: with the clock in the last representable second and a
  timeout of one second the deadline overflows, and the waiter thread has been created.
\<close>

theorem overflow_before_spawn_counterexample:
  "compute_deadline (clock_now clock_at_max) 1000 = None
   \<and> Ret Pthread_create 0
       \<in> set (trace (snd (wait_timeout_untraced clock_at_max 4242 1000 (entry 0))))"
  using deadline_clock_at_max by (simp add: call_defs sample_defs)

text \<open>
  Claim C4, amended. When the deadline overflows, the overflow is found only after the
  waiter thread was created: the racer has initialised the monitor, created the thread
  and locked the mutex when it reads the clock and finds the overflow there;
  \<^verbatim>\<open>wait_timeout_untraced_internal_4\<close> then returns \<open>-1\<close> having done nothing but the
  clock read, and the call never waits on the condition variable.
\<close>

theorem overflow_detected_after_spawn:
  assumes "mutex_init_ret e = 0" and "condattr_init_ret e = 0"
    and "condattr_setclock_ret e = 0" and "cond_init_ret e = 0"
    and "pthread_create_ret e = 0" and "clock_gettime_ret e = 0"
    and "compute_deadline (clock_now e) timeout_ms = None"
  shows "take 8 (trace (snd (wait_timeout_untraced e p timeout_ms (entry errno0)))) =
      [Ret Pthread_mutex_init 0, Ret Pthread_condattr_init 0, Store_return_val (-1),
       Ret (Pthread_condattr_setclock CLOCK_MONOTONIC) 0, Ret Pthread_cond_init 0,
       Ret Pthread_create 0, Void Pthread_mutex_lock,
       Ret (Clock_gettime CLOCK_MONOTONIC) 0]
   \<and> cond_waits (trace (snd (wait_timeout_untraced e p timeout_ms (entry errno0)))) = []
   \<and> wait_timeout_untraced_internal_4 e timeout_ms s
       = (-1, lib e (Ret (Clock_gettime CLOCK_MONOTONIC) 0) s)"
proof (intro conjI)
  show "take 8 (trace (snd (wait_timeout_untraced e p timeout_ms (entry errno0)))) =
      [Ret Pthread_mutex_init 0, Ret Pthread_condattr_init 0, Store_return_val (-1),
       Ret (Pthread_condattr_setclock CLOCK_MONOTONIC) 0, Ret Pthread_cond_init 0,
       Ret Pthread_create 0, Void Pthread_mutex_lock,
       Ret (Clock_gettime CLOCK_MONOTONIC) 0]"
    using assms by (simp add: call_defs ETIMEDOUT_def split: option.splits)
next
  show "cond_waits (trace (snd (wait_timeout_untraced e p timeout_ms (entry errno0)))) = []"
    using assms by (simp add: call_defs ETIMEDOUT_def split: option.splits)
next
  show "wait_timeout_untraced_internal_4 e timeout_ms s
      = (-1, lib e (Ret (Clock_gettime CLOCK_MONOTONIC) 0) s)"
    using assms by (simp add: wait_timeout_untraced_internal_4_def Let_def)
qed

text \<open>
  Two overflowing calls: the target has terminated, and the target never terminates.
\<close>

theorem overflow_detected_after_spawn_witness:
  "mutex_init_ret clock_at_max = 0 \<and> condattr_init_ret clock_at_max = 0
   \<and> condattr_setclock_ret clock_at_max = 0 \<and> cond_init_ret clock_at_max = 0
   \<and> pthread_create_ret clock_at_max = 0 \<and> clock_gettime_ret clock_at_max = 0
   \<and> compute_deadline (clock_now clock_at_max) 1000 = None
   \<and> take 8 (trace (snd (wait_timeout_untraced clock_at_max 4242 1000 (entry 0)))) =
      [Ret Pthread_mutex_init 0, Ret Pthread_condattr_init 0, Store_return_val (-1),
       Ret (Pthread_condattr_setclock CLOCK_MONOTONIC) 0, Ret Pthread_cond_init 0,
       Ret Pthread_create 0, Void Pthread_mutex_lock,
       Ret (Clock_gettime CLOCK_MONOTONIC) 0]
   \<and> cond_waits (trace (snd (wait_timeout_untraced clock_at_max 4242 1000 (entry 0)))) = []
   \<and> fst (wait_timeout_untraced_internal_4 clock_at_max 1000 (entry 0)) = -1
   \<and> waitid_ret (clock_at_max\<lparr>waitid_ret := None\<rparr>) = None
   \<and> compute_deadline (clock_now (clock_at_max\<lparr>waitid_ret := None\<rparr>)) 1000 = None
   \<and> take 8 (trace (snd (wait_timeout_untraced (clock_at_max\<lparr>waitid_ret := None\<rparr>)
         4242 1000 (entry 0)))) =
      [Ret Pthread_mutex_init 0, Ret Pthread_condattr_init 0, Store_return_val (-1),
       Ret (Pthread_condattr_setclock CLOCK_MONOTONIC) 0, Ret Pthread_cond_init 0,
       Ret Pthread_create 0, Void Pthread_mutex_lock,
       Ret (Clock_gettime CLOCK_MONOTONIC) 0]
   \<and> cond_waits (trace (snd (wait_timeout_untraced (clock_at_max\<lparr>waitid_ret := None\<rparr>)
         4242 1000 (entry 0)))) = []"
proof -
  let ?live = "clock_at_max\<lparr>waitid_ret := None\<rparr>"
  have h: "mutex_init_ret clock_at_max = 0" "condattr_init_ret clock_at_max = 0"
    "condattr_setclock_ret clock_at_max = 0" "cond_init_ret clock_at_max = 0"
    "pthread_create_ret clock_at_max = 0" "clock_gettime_ret clock_at_max = 0"
    by (simp_all add: sample_defs)
  have k: "mutex_init_ret ?live = 0" "condattr_init_ret ?live = 0"
    "condattr_setclock_ret ?live = 0" "cond_init_ret ?live = 0"
    "pthread_create_ret ?live = 0" "clock_gettime_ret ?live = 0"
    by (simp_all add: sample_defs)
  have d: "compute_deadline (clock_now ?live) 1000 = None"
    using deadline_clock_at_max by simp
  have w: "waitid_ret ?live = None" by simp
  note a = overflow_detected_after_spawn [OF h deadline_clock_at_max, of 4242 0 "entry 0"]
  note b = overflow_detected_after_spawn [OF k d, of 4242 0 "entry 0"]
  from a have a4: "fst (wait_timeout_untraced_internal_4 clock_at_max 1000 (entry 0)) = -1"
    by simp
  show ?thesis
    using h deadline_clock_at_max d w a b a4 by (simp only: simp_thms)
qed

section \<open>What the caller can tell apart\<close>

text \<open>
  Against claim C5 as stated: a failed thread creation, a failed \<^verbatim>\<open>waitid\<close> in the
  waiter and a failed mutex initialisation hand the caller the same return value and the
  same \<^verbatim>\<open>errno\<close>.
\<close>

theorem setup_failure_distinguishable_counterexample:
  "fst (wait_timeout_untraced (all_succeed\<lparr>pthread_create_ret := 11\<rparr>) 4242 2000 (entry 0))
     = fst (wait_timeout_untraced (all_succeed\<lparr>waitid_ret := Some (-1)\<rparr>) 4242 2000 (entry 0))
   \<and> errno (snd (wait_timeout_untraced (all_succeed\<lparr>pthread_create_ret := 11\<rparr>) 4242 2000 (entry 0)))
     = errno (snd (wait_timeout_untraced (all_succeed\<lparr>waitid_ret := Some (-1)\<rparr>) 4242 2000 (entry 0)))
   \<and> fst (wait_timeout_untraced (all_succeed\<lparr>pthread_create_ret := 11\<rparr>) 4242 2000 (entry 0))
     = fst (wait_timeout_untraced (all_succeed\<lparr>mutex_init_ret := 12\<rparr>) 4242 2000 (entry 0))
   \<and> errno (snd (wait_timeout_untraced (all_succeed\<lparr>pthread_create_ret := 11\<rparr>) 4242 2000 (entry 0)))
     = errno (snd (wait_timeout_untraced (all_succeed\<lparr>mutex_init_ret := 12\<rparr>) 4242 2000 (entry 0)))"
  using deadline_all_succeed
  by (simp add: call_defs sample_defs ETIMEDOUT_def)

text \<open>
  Claim C5, amended. A failed initialisation of the mutex, the condition attribute, its
  clock or the condition variable, and a failed thread creation, each return \<open>-1\<close>
  and the code stores nothing to \<^verbatim>\<open>errno\<close>; a failed \<^verbatim>\<open>waitid\<close> of the target likewise
  returns \<open>-1\<close> with no store to \<^verbatim>\<open>errno\<close>; the timeout returns \<open>-1\<close> and is the one
  result the code marks, by storing \<^verbatim>\<open>ETIMEDOUT\<close> to \<^verbatim>\<open>errno\<close>.
\<close>

theorem only_timeout_is_marked:
  "(mutex_init_ret e \<noteq> 0 \<or> condattr_init_ret e \<noteq> 0 \<or> condattr_setclock_ret e \<noteq> 0
      \<or> cond_init_ret e \<noteq> 0 \<or> pthread_create_ret e \<noteq> 0 \<longrightarrow>
      fst (wait_timeout_untraced e p timeout_ms (entry errno0)) = Some (-1)
      \<and> errno_stores (trace (snd (wait_timeout_untraced e p timeout_ms (entry errno0)))) = [])
   \<and> (mutex_init_ret e = 0 \<and> condattr_init_ret e = 0 \<and> condattr_setclock_ret e = 0
      \<and> cond_init_ret e = 0 \<and> pthread_create_ret e = 0 \<and> clock_gettime_ret e = 0
      \<and> compute_deadline (clock_now e) timeout_ms \<noteq> None
      \<and> cond_timedwait_ret e \<noteq> ETIMEDOUT \<and> waitid_ret e = Some (-1) \<longrightarrow>
      fst (wait_timeout_untraced e p timeout_ms (entry errno0)) = Some (-1)
      \<and> errno_stores (trace (snd (wait_timeout_untraced e p timeout_ms (entry errno0)))) = [])
   \<and> (mutex_init_ret e = 0 \<and> condattr_init_ret e = 0 \<and> condattr_setclock_ret e = 0
      \<and> cond_init_ret e = 0 \<and> pthread_create_ret e = 0 \<and> clock_gettime_ret e = 0
      \<and> compute_deadline (clock_now e) timeout_ms \<noteq> None
      \<and> cond_timedwait_ret e = ETIMEDOUT \<longrightarrow>
      fst (wait_timeout_untraced e p timeout_ms (entry errno0)) = Some (-1)
      \<and> errno_stores (trace (snd (wait_timeout_untraced e p timeout_ms (entry errno0))))
          = [ETIMEDOUT])"
proof (intro conjI impI)
  assume "mutex_init_ret e \<noteq> 0 \<or> condattr_init_ret e \<noteq> 0 \<or> condattr_setclock_ret e \<noteq> 0
      \<or> cond_init_ret e \<noteq> 0 \<or> pthread_create_ret e \<noteq> 0"
  then show "fst (wait_timeout_untraced e p timeout_ms (entry errno0)) = Some (-1)"
    and "errno_stores (trace (snd (wait_timeout_untraced e p timeout_ms (entry errno0)))) = []"
    by (auto simp add: call_defs split: option.splits prod.splits)
next
  assume "mutex_init_ret e = 0 \<and> condattr_init_ret e = 0 \<and> condattr_setclock_ret e = 0
      \<and> cond_init_ret e = 0 \<and> pthread_create_ret e = 0 \<and> clock_gettime_ret e = 0
      \<and> compute_deadline (clock_now e) timeout_ms \<noteq> None
      \<and> cond_timedwait_ret e \<noteq> ETIMEDOUT \<and> waitid_ret e = Some (-1)"
  then show "fst (wait_timeout_untraced e p timeout_ms (entry errno0)) = Some (-1)"
    and "errno_stores (trace (snd (wait_timeout_untraced e p timeout_ms (entry errno0)))) = []"
    by (auto simp add: call_defs split: option.splits prod.splits)
next
  assume "mutex_init_ret e = 0 \<and> condattr_init_ret e = 0 \<and> condattr_setclock_ret e = 0
      \<and> cond_init_ret e = 0 \<and> pthread_create_ret e = 0 \<and> clock_gettime_ret e = 0
      \<and> compute_deadline (clock_now e) timeout_ms \<noteq> None
      \<and> cond_timedwait_ret e = ETIMEDOUT"
  then show "fst (wait_timeout_untraced e p timeout_ms (entry errno0)) = Some (-1)"
    and "errno_stores (trace (snd (wait_timeout_untraced e p timeout_ms (entry errno0))))
          = [ETIMEDOUT]"
    by (auto simp add: call_defs split: option.splits prod.splits)
qed

text \<open>One call for each of the three cases.\<close>

theorem only_timeout_is_marked_witness:
  "pthread_create_ret (all_succeed\<lparr>pthread_create_ret := 11\<rparr>) \<noteq> 0
   \<and> fst (wait_timeout_untraced (all_succeed\<lparr>pthread_create_ret := 11\<rparr>) 4242 2000 (entry 5))
       = Some (-1)
   \<and> errno_stores (trace (snd (wait_timeout_untraced (all_succeed\<lparr>pthread_create_ret := 11\<rparr>)
         4242 2000 (entry 5)))) = []
   \<and> compute_deadline (clock_now (all_succeed\<lparr>waitid_ret := Some (-1)\<rparr>)) 2000 \<noteq> None
   \<and> cond_timedwait_ret (all_succeed\<lparr>waitid_ret := Some (-1)\<rparr>) \<noteq> ETIMEDOUT
   \<and> fst (wait_timeout_untraced (all_succeed\<lparr>waitid_ret := Some (-1)\<rparr>) 4242 2000 (entry 5))
       = Some (-1)
   \<and> errno_stores (trace (snd (wait_timeout_untraced (all_succeed\<lparr>waitid_ret := Some (-1)\<rparr>)
         4242 2000 (entry 5)))) = []
   \<and> compute_deadline (clock_now target_outlives) 2000 \<noteq> None
   \<and> cond_timedwait_ret target_outlives = ETIMEDOUT
   \<and> fst (wait_timeout_untraced target_outlives 4242 2000 (entry 5)) = Some (-1)
   \<and> errno_stores (trace (snd (wait_timeout_untraced target_outlives 4242 2000 (entry 5))))
       = [ETIMEDOUT]"
proof -
  have d: "compute_deadline (clock_now (all_succeed\<lparr>waitid_ret := Some (-1)\<rparr>)) 2000 \<noteq> None"
    using deadline_all_succeed by simp
  have d': "compute_deadline (clock_now target_outlives) 2000 \<noteq> None"
    using deadline_target_outlives by simp
  show ?thesis
    using d d'
      only_timeout_is_marked [of "all_succeed\<lparr>pthread_create_ret := 11\<rparr>" 4242 2000 5]
      only_timeout_is_marked [of "all_succeed\<lparr>waitid_ret := Some (-1)\<rparr>" 4242 2000 5]
      only_timeout_is_marked [of target_outlives 4242 2000 5]
    by (simp add: sample_defs ETIMEDOUT_def)
qed

section \<open>A failed deadline computation is not reported\<close>

text \<open>
  Whenever the clock read fails or the deadline overflows, the call returns what the
  waiter records, and does not return while \<^verbatim>\<open>waitid\<close> does not.
\<close>

lemma deadline_failure_not_reported:
  assumes "mutex_init_ret e = 0" and "condattr_init_ret e = 0"
    and "condattr_setclock_ret e = 0" and "cond_init_ret e = 0"
    and "pthread_create_ret e = 0"
    and "clock_gettime_ret e \<noteq> 0 \<or> compute_deadline (clock_now e) timeout_ms = None"
  shows "fst (wait_timeout_untraced e p timeout_ms (entry errno0))
      = map_option (\<lambda>r. if r = -1 then -1 else 0) (waitid_ret e)"
  using assms by (auto simp add: call_defs ETIMEDOUT_def split: option.splits)

lemma call_returns_0_or_minus_1:
  "fst (wait_timeout_untraced e p timeout_ms (entry errno0)) \<in> {None, Some 0, Some (-1)}"
  by (simp add: call_defs split: option.splits)

lemma errno_stored_on_timeout_only:
  "errno_stores (trace (snd (wait_timeout_untraced e p timeout_ms (entry errno0))))
     = (if mutex_init_ret e = 0 \<and> condattr_init_ret e = 0 \<and> condattr_setclock_ret e = 0
          \<and> cond_init_ret e = 0 \<and> pthread_create_ret e = 0 \<and> clock_gettime_ret e = 0
          \<and> compute_deadline (clock_now e) timeout_ms \<noteq> None
          \<and> cond_timedwait_ret e = ETIMEDOUT
        then [ETIMEDOUT] else [])"
  by (auto simp add: call_defs ETIMEDOUT_def split: option.splits)

text \<open>
  Claim C6 fails on the code. \<^verbatim>\<open>clock_gettime\<close> fails after the waiter was created,
  \<^verbatim>\<open>wait_timeout_untraced_internal_4\<close> returns \<open>-1\<close>, and
  \<^verbatim>\<open>wait_timeout_untraced_internal_3\<close>, which only compares with \<^verbatim>\<open>ETIMEDOUT\<close>, joins
  the waiter and returns its outcome: the call returns \<open>0\<close>.
\<close>

theorem clock_failure_returns_success:
  "wait_timeout_untraced (all_succeed\<lparr>clock_gettime_ret := -1\<rparr>) 4242 2000 (entry 0) =
     (Some 0,
      \<lparr>errno = 0,
       trace =
         [Ret Pthread_mutex_init 0, Ret Pthread_condattr_init 0, Store_return_val (-1),
          Ret (Pthread_condattr_setclock CLOCK_MONOTONIC) 0, Ret Pthread_cond_init 0,
          Ret Pthread_create 0, Void Pthread_mutex_lock,
          Ret (Clock_gettime CLOCK_MONOTONIC) (-1), Void Pthread_mutex_unlock,
          Void Pthread_join, Load_return_val, Void Pthread_cond_destroy,
          Void Pthread_condattr_destroy, Void Pthread_mutex_destroy],
       waiter =
         [Ret (Waitid P_PID 4242 (WNOWAIT OR WEXITED)) 0, Store_return_val 0,
          Void Pthread_mutex_lock, Void Pthread_cond_signal, Void Pthread_mutex_unlock]\<rparr>)"
  by (simp add: call_defs sample_defs ETIMEDOUT_def)

text \<open>
  Claim C10 fails on the code, by the same defect. The deadline overflows,
  \<^verbatim>\<open>wait_timeout_untraced_internal_4\<close> returns \<open>-1\<close>, and the call returns \<open>0\<close> on
  this setup-failure path, with no store to \<^verbatim>\<open>errno\<close>.
\<close>

theorem overflow_returns_success:
  "compute_deadline (clock_now clock_at_max) 1000 = None
   \<and> fst (wait_timeout_untraced_internal_4 clock_at_max 1000 (entry 0)) = -1
   \<and> fst (wait_timeout_untraced clock_at_max 4242 1000 (entry 0)) = Some 0
   \<and> errno_stores (trace (snd (wait_timeout_untraced clock_at_max 4242 1000 (entry 0)))) = []"
  using deadline_clock_at_max by (simp add: call_defs sample_defs ETIMEDOUT_def)

section \<open>The outcome slot\<close>

text \<open>
  Against claim C7 as stated: the waiter's one store to \<^verbatim>\<open>return_val\<close> happens while
  it does not hold the mutex.
\<close>

theorem outcome_stored_under_lock_counterexample:
  "stores (snd (wait_for_process (Some 0) \<lparr>pid = 4242, return_val = -1\<rparr>)) = [0]
   \<and> store_locks False (snd (wait_for_process (Some 0) \<lparr>pid = 4242, return_val = -1\<rparr>))
       = [False]
   \<and> store_locks False (waiter (snd (wait_timeout_untraced all_succeed 4242 2000 (entry 0))))
       = [False]"
  using deadline_all_succeed by (simp add: call_defs sample_defs ETIMEDOUT_def)

lemma stores_of_waiter:
  "stores (snd (wait_for_process w proc_info)) = [] \<and> store_locks False (snd (wait_for_process w proc_info)) = []
   \<or> stores (snd (wait_for_process w proc_info)) = [0] \<and> store_locks False (snd (wait_for_process w proc_info)) = [False]
   \<or> stores (snd (wait_for_process w proc_info)) = [-1] \<and> store_locks False (snd (wait_for_process w proc_info)) = [False]"
  by (simp add: wait_for_process_def Let_def split: option.splits)

text \<open>
  Claim C7, amended. In every call the waiter stores to \<^verbatim>\<open>return_val\<close> at most once,
  \<open>0\<close> or \<open>-1\<close>, and that store happens before the waiter locks the mutex, not while
  it holds it; the racer stores only the initial \<open>-1\<close>, before it creates the thread,
  and nothing after.
\<close>

theorem outcome_stored_once_before_lock:
  "(stores (waiter (snd (wait_timeout_untraced e p timeout_ms (entry errno0)))) = []
      \<and> store_locks False (waiter (snd (wait_timeout_untraced e p timeout_ms (entry errno0)))) = []
    \<or> stores (waiter (snd (wait_timeout_untraced e p timeout_ms (entry errno0)))) = [0]
      \<and> store_locks False (waiter (snd (wait_timeout_untraced e p timeout_ms (entry errno0))))
          = [False]
    \<or> stores (waiter (snd (wait_timeout_untraced e p timeout_ms (entry errno0)))) = [-1]
      \<and> store_locks False (waiter (snd (wait_timeout_untraced e p timeout_ms (entry errno0))))
          = [False])
   \<and> stores (after_create (trace (snd (wait_timeout_untraced e p timeout_ms (entry errno0))))) = []
   \<and> (stores (trace (snd (wait_timeout_untraced e p timeout_ms (entry errno0)))) = []
      \<or> stores (trace (snd (wait_timeout_untraced e p timeout_ms (entry errno0)))) = [-1])"
proof (intro conjI)
  from waiter_of_call [of e p timeout_ms errno0]
  show "stores (waiter (snd (wait_timeout_untraced e p timeout_ms (entry errno0)))) = []
      \<and> store_locks False (waiter (snd (wait_timeout_untraced e p timeout_ms (entry errno0)))) = []
    \<or> stores (waiter (snd (wait_timeout_untraced e p timeout_ms (entry errno0)))) = [0]
      \<and> store_locks False (waiter (snd (wait_timeout_untraced e p timeout_ms (entry errno0))))
          = [False]
    \<or> stores (waiter (snd (wait_timeout_untraced e p timeout_ms (entry errno0)))) = [-1]
      \<and> store_locks False (waiter (snd (wait_timeout_untraced e p timeout_ms (entry errno0))))
          = [False]"
  proof
    assume "waiter (snd (wait_timeout_untraced e p timeout_ms (entry errno0))) = []"
    then show ?thesis by simp
  next
    assume "\<exists>w. waiter (snd (wait_timeout_untraced e p timeout_ms (entry errno0)))
          = snd (wait_for_process w \<lparr>pid = p, return_val = -1\<rparr>)"
    then obtain w where "waiter (snd (wait_timeout_untraced e p timeout_ms (entry errno0)))
          = snd (wait_for_process w \<lparr>pid = p, return_val = -1\<rparr>)" ..
    then show ?thesis
      using stores_of_waiter [of w "\<lparr>pid = p, return_val = -1\<rparr>"] by (simp only:)
  qed
next
  show "stores (after_create (trace (snd (wait_timeout_untraced e p timeout_ms (entry errno0))))) = []"
    by (simp add: call_defs split: option.splits)
next
  show "stores (trace (snd (wait_timeout_untraced e p timeout_ms (entry errno0)))) = []
      \<or> stores (trace (snd (wait_timeout_untraced e p timeout_ms (entry errno0)))) = [-1]"
    by (simp add: call_defs split: option.splits)
qed

section \<open>The signal can come before the wait\<close>

text \<open>
  Claim C8 fails on the code. In the schedule \<open>signal_first\<close> the target terminates
  before the deadline passes, the waiter signals under the lock, and the racer, which
  took the lock only after that, waits until the deadline and returns \<open>-1\<close> with
  \<^verbatim>\<open>ETIMEDOUT\<close>, although the waiter recorded \<open>0\<close>. For the caller this is the call
  in which everything succeeds, \<^verbatim>\<open>waitid\<close> returns \<open>0\<close>, and the wait still times out.
\<close>

theorem signal_before_wait_is_lost:
  "terminates_in_time signal_first
   \<and> run signal_first (start 0) =
       Some \<lparr>rpc = R_done, wpc = W_exit, mutex = None, signalled = False,
             shared_return_val = 0, ret = ETIMEDOUT, racer_errno = ETIMEDOUT,
             returned = Some (-1), cancel_requested = True, target_terminated = True,
             armed = True, deadline_passed = True\<rparr>
   \<and> fst (wait_timeout_untraced (all_succeed\<lparr>cond_timedwait_ret := ETIMEDOUT\<rparr>)
         4242 2000 (entry 0)) = Some (-1)
   \<and> stores (waiter (snd (wait_timeout_untraced
         (all_succeed\<lparr>cond_timedwait_ret := ETIMEDOUT\<rparr>) 4242 2000 (entry 0)))) = [0]"
proof -
  have "compute_deadline (clock_now (all_succeed\<lparr>cond_timedwait_ret := ETIMEDOUT\<rparr>)) 2000
      = Some \<lparr>tv_sec = 102, tv_nsec = 0\<rparr>"
    using deadline_all_succeed by simp
  then have "fst (wait_timeout_untraced (all_succeed\<lparr>cond_timedwait_ret := ETIMEDOUT\<rparr>)
        4242 2000 (entry 0)) = Some (-1)"
    and "stores (waiter (snd (wait_timeout_untraced
        (all_succeed\<lparr>cond_timedwait_ret := ETIMEDOUT\<rparr>) 4242 2000 (entry 0)))) = [0]"
    by (simp_all add: call_defs sample_defs)
  moreover have "terminates_in_time signal_first"
    by (simp add: signal_first_def terminates_in_time_def)
  moreover have "run signal_first (start 0) =
       Some \<lparr>rpc = R_done, wpc = W_exit, mutex = None, signalled = False,
             shared_return_val = 0, ret = ETIMEDOUT, racer_errno = ETIMEDOUT,
             returned = Some (-1), cancel_requested = True, target_terminated = True,
             armed = True, deadline_passed = True\<rparr>"
    by (simp add: signal_first_def start_def)
  ultimately show ?thesis by (simp only: simp_thms)
qed

text \<open>
  The lock discipline itself holds on every run: the waiter signals only while it holds
  the mutex, and the racer holds it from the clock read until it waits. What is not
  covered is the time between the thread creation and the racer's lock.
\<close>

lemma step_lock_discipline:
  assumes "lock_discipline w" and "step a w = Some w'"
  shows "lock_discipline w'"
proof (cases a)
  case (Step t)
  show ?thesis
  proof (cases t)
    case Racer
    with Step assms show ?thesis
      by (cases "rpc w") (auto simp add: lock_discipline_def split: if_splits)
  next
    case Waiter
    with Step assms show ?thesis
      by (cases "wpc w") (auto simp add: lock_discipline_def split: if_splits)
  qed
next
  case Cancellation
  with assms show ?thesis by (auto simp add: lock_discipline_def split: if_splits)
next
  case Target_terminates
  with assms show ?thesis by (auto simp add: lock_discipline_def split: if_splits)
next
  case Deadline_passes
  with assms show ?thesis by (auto simp add: lock_discipline_def split: if_splits)
qed

lemma run_lock_discipline:
  "lock_discipline w \<Longrightarrow> run sched w = Some w' \<Longrightarrow> lock_discipline w'"
proof (induction sched arbitrary: w)
  case Nil
  then show ?case by simp
next
  case (Cons a sched)
  then show ?case
    by (auto split: option.splits dest: step_lock_discipline)
qed

lemma signal_only_under_lock:
  assumes "run sched (start errno0) = Some w"
  shows "(wpc w = W_signal \<longrightarrow> mutex w = Some Waiter)
       \<and> (rpc w = R_deadline \<or> rpc w = R_timedwait \<longrightarrow> mutex w = Some Racer)"
proof -
  have "lock_discipline (start errno0)" by (simp add: lock_discipline_def start_def)
  then have "lock_discipline w" using assms by (rule run_lock_discipline)
  then show ?thesis by (simp add: lock_discipline_def)
qed

end
